theory Spec2Isabelle
  imports Main "HOL-Library.Monad_Syntax"
begin

section \<open>Data model of the chess engine (Chess/engine.py)\<close>

text \<open>
  The engine stores every square as a two-character string: \<open>"--"\<close> for an empty
  square, otherwise a colour letter (\<open>w\<close>, \<open>b\<close>) followed by a kind letter
  (\<open>p R N B Q K\<close>). Only these thirteen strings are ever written to the board, so a
  square is modelled as a datatype; \<open>tile_colour\<close> is the source's \<open>piece[0]\<close>
  and \<open>tile_kind\<close> is \<open>piece[1]\<close> (both \<open>None\<close> for the dash of \<open>"--"\<close>).
\<close>

datatype colour = White | Black

datatype kind = Pawn | Rook | Knight | Bishop | Queen | King

datatype tile = Empty | Piece colour kind

abbreviation wp :: tile where "wp \<equiv> Piece White Pawn"
abbreviation wR :: tile where "wR \<equiv> Piece White Rook"
abbreviation wN :: tile where "wN \<equiv> Piece White Knight"
abbreviation wB :: tile where "wB \<equiv> Piece White Bishop"
abbreviation wQ :: tile where "wQ \<equiv> Piece White Queen"
abbreviation wK :: tile where "wK \<equiv> Piece White King"
abbreviation bp :: tile where "bp \<equiv> Piece Black Pawn"
abbreviation bR :: tile where "bR \<equiv> Piece Black Rook"
abbreviation bN :: tile where "bN \<equiv> Piece Black Knight"
abbreviation bB :: tile where "bB \<equiv> Piece Black Bishop"
abbreviation bQ :: tile where "bQ \<equiv> Piece Black Queen"
abbreviation bK :: tile where "bK \<equiv> Piece Black King"

fun tile_colour :: "tile \<Rightarrow> colour option" where
  "tile_colour Empty = None"
| "tile_colour (Piece c k) = Some c"

fun tile_kind :: "tile \<Rightarrow> kind option" where
  "tile_kind Empty = None"
| "tile_kind (Piece c k) = Some k"

type_synonym board = "tile list list"

subsection \<open>Python list indexing\<close>

text \<open>
  \<open>xs[i]\<close> in Python counts a negative index from the end and raises IndexError out
  of range; the exception is the value \<open>None\<close>.
\<close>

definition py_index :: "'a list \<Rightarrow> int \<Rightarrow> nat option" where
  "py_index xs i =
     (let n = int (length xs); j = (if i < 0 then n + i else i)
      in if 0 \<le> j \<and> j < n then Some (nat j) else None)"

definition py_get :: "'a list \<Rightarrow> int \<Rightarrow> 'a option" where
  "py_get xs i = map_option (\<lambda>j. xs ! j) (py_index xs i)"

definition py_set :: "'a list \<Rightarrow> int \<Rightarrow> 'a \<Rightarrow> 'a list option" where
  "py_set xs i v = map_option (\<lambda>j. xs[j := v]) (py_index xs i)"

definition board_get :: "board \<Rightarrow> int \<Rightarrow> int \<Rightarrow> tile option" where
  "board_get b r c = py_get b r \<bind> (\<lambda>line. py_get line c)"

definition board_set :: "board \<Rightarrow> int \<Rightarrow> int \<Rightarrow> tile \<Rightarrow> board option" where
  "board_set b r c v =
     py_get b r \<bind> (\<lambda>line. py_set line c v \<bind> (\<lambda>line'. py_set b r line'))"

text \<open>The guard \<open>0 <= r < len(board) and 0 <= c < len(board[0])\<close>.\<close>

definition on_board :: "board \<Rightarrow> int \<Rightarrow> int \<Rightarrow> bool" where
  "on_board b r c \<longleftrightarrow> 0 \<le> r \<and> r < int (length b) \<and> 0 \<le> c \<and> c < int (length (b ! 0))"

subsection \<open>Moves\<close>

record move =
  start_row :: int
  start_col :: int
  end_row :: int
  end_col :: int
  piece_moved :: tile
  piece_captured :: tile
  is_pawn_promotion :: bool
  is_en_passant :: bool
  is_castle :: bool
  move_id :: int

text \<open>\<open>Move.__init__\<close>; reading the board at either square may raise.\<close>

definition Move_init :: "int \<times> int \<Rightarrow> int \<times> int \<Rightarrow> board \<Rightarrow> bool \<Rightarrow> bool \<Rightarrow> move option" where
  "Move_init start endp b en_passant castle =
     board_get b (fst start) (snd start) \<bind> (\<lambda>moved.
     board_get b (fst endp) (snd endp) \<bind> (\<lambda>captured.
     Some \<lparr> start_row = fst start, start_col = snd start,
            end_row = fst endp, end_col = snd endp,
            piece_moved = moved,
            piece_captured =
              (if en_passant then (if moved = bp then wp else bp) else captured),
            is_pawn_promotion = ((moved = wp \<and> fst endp = 0) \<or> (moved = bp \<and> fst endp = 7)),
            is_en_passant = en_passant,
            is_castle = castle,
            move_id = fst start * 1000 + snd start * 100 + fst endp * 10 + snd endp \<rparr>))"

text \<open>
  The dictionaries of moves are keyed by \<open>str(move.move_id)\<close> and iterate in insertion
  order; \<open>str\<close> is injective on integers, so the key is the integer itself.
\<close>

type_synonym moves = "(int \<times> move) list"

fun dict_set :: "moves \<Rightarrow> int \<Rightarrow> move \<Rightarrow> moves" where
  "dict_set [] k v = [(k, v)]"
| "dict_set ((k', v') # d) k v = (if k' = k then (k, v) # d else (k', v') # dict_set d k v)"

definition dict_del :: "moves \<Rightarrow> int \<Rightarrow> moves" where
  "dict_del d k = filter (\<lambda>kv. fst kv \<noteq> k) d"

definition dict_values :: "moves \<Rightarrow> move list" where
  "dict_values d = map snd d"

definition add_move :: "moves \<Rightarrow> move \<Rightarrow> moves" where
  "add_move d m = dict_set d (move_id m) m"

subsection \<open>Castling rights and the game state\<close>

record castle_rights =
  wks :: bool
  bks :: bool
  wqs :: bool
  bqs :: bool

type_synonym pin = "int \<times> int \<times> int \<times> int"

text \<open>
  Modelled from the spec: the module Chess/utils/constants.py, which defines
  \<open>NO_VALUE\<close> and \<open>MAX_DEPTH\<close>, is not among the sources. The spec calls the
  sentinel NONE, a value that is no coordinate and no direction: a pair or tuple of
  \<open>NO_VALUE\<close>s is \<open>None\<close> here. \<open>MAX_DEPTH\<close> is a parameter of the searches.

  \<open>console\<close> collects what the engine prints.
\<close>

record game_state =
  board :: board
  white_to_move :: bool
  valid_moves :: moves
  move_log :: "move list"
  white_king_location :: "int \<times> int"
  black_king_location :: "int \<times> int"
  checkmate :: bool
  stalemate :: bool
  in_check :: bool
  pins :: "pin list"
  checks :: "pin list"
  en_passant_possible :: "(int \<times> int) option"
  current_castling_rights :: castle_rights
  castle_rights_log :: "castle_rights list"
  console :: "string list"

definition initial_board :: board where
  "initial_board =
    [[bR, bN, bB, bQ, bK, bB, bN, bR],
     [bp, bp, bp, bp, bp, bp, bp, bp],
     [Empty, Empty, Empty, Empty, Empty, Empty, Empty, Empty],
     [Empty, Empty, Empty, Empty, Empty, Empty, Empty, Empty],
     [Empty, Empty, Empty, Empty, Empty, Empty, Empty, Empty],
     [Empty, Empty, Empty, Empty, Empty, Empty, Empty, Empty],
     [wp, wp, wp, wp, wp, wp, wp, wp],
     [wR, wN, wB, wQ, wK, wB, wN, wR]]"

definition GameState_init :: game_state where
  "GameState_init =
     \<lparr> board = initial_board, white_to_move = True, valid_moves = [], move_log = [],
       white_king_location = (7, 4), black_king_location = (0, 4),
       checkmate = False, stalemate = False, in_check = False, pins = [], checks = [],
       en_passant_possible = None,
       current_castling_rights = \<lparr> wks = True, bks = True, wqs = True, bqs = True \<rparr>,
       castle_rights_log = [\<lparr> wks = True, bks = True, wqs = True, bqs = True \<rparr>],
       console = [] \<rparr>"

subsection \<open>make_move\<close>

definition update_castle_rights :: "castle_rights \<Rightarrow> move \<Rightarrow> castle_rights" where
  "update_castle_rights cr m =
     (let cr1 =
        (if piece_moved m = wK then cr\<lparr>wks := False, wqs := False\<rparr>
         else if piece_moved m = bK then cr\<lparr>bks := False, bqs := False\<rparr>
         else if piece_moved m = wR then
           (if start_row m = 7 then
              (if start_col m = 0 then cr\<lparr>wqs := False\<rparr>
               else if start_col m = 7 then cr\<lparr>wks := False\<rparr> else cr)
            else cr)
         else if piece_moved m = bR then
           (if start_row m = 0 then
              (if start_col m = 0 then cr\<lparr>bqs := False\<rparr>
               else if start_col m = 7 then cr\<lparr>bks := False\<rparr> else cr)
            else cr)
         else cr)
      in if piece_captured m = wR then
           (if end_row m = 7 then
              (if end_col m = 0 then cr1\<lparr>wqs := False\<rparr>
               else if end_col m = 7 then cr1\<lparr>wks := False\<rparr> else cr1)
            else cr1)
         else if piece_captured m = bR then
           (if end_row m = 0 then
              (if end_col m = 0 then cr1\<lparr>bqs := False\<rparr>
               else if end_col m = 7 then cr1\<lparr>bks := False\<rparr> else cr1)
            else cr1)
         else cr1)"

text \<open>
  \<open>move.piece_moved[0] + "Q"\<close>. A move is promoting only when its piece is a pawn, so
  the string is a queen's; for a square without colour the source would write a string
  that is no piece, which the model reports as a failure.
\<close>

definition promoted :: "tile \<Rightarrow> tile option" where
  "promoted t = map_option (\<lambda>c. Piece c Queen) (tile_colour t)"

definition king_moved :: "game_state \<Rightarrow> tile \<Rightarrow> int \<times> int \<Rightarrow> game_state" where
  "king_moved s t loc =
     (if t = wK then s\<lparr>white_king_location := loc\<rparr>
      else if t = bK then s\<lparr>black_king_location := loc\<rparr>
      else s)"

definition castle_rook_make :: "board \<Rightarrow> move \<Rightarrow> board option" where
  "castle_rook_make b m =
     (if end_col m - start_col m = 2 then
        board_get b (end_row m) (end_col m + 1) \<bind> (\<lambda>rook.
        board_set b (end_row m) (end_col m - 1) rook \<bind> (\<lambda>b1.
        board_set b1 (end_row m) (end_col m + 1) Empty))
      else
        board_get b (end_row m) (end_col m - 2) \<bind> (\<lambda>rook.
        board_set b (end_row m) (end_col m + 1) rook \<bind> (\<lambda>b1.
        board_set b1 (end_row m) (end_col m - 2) Empty)))"

definition make_move :: "game_state \<Rightarrow> move \<Rightarrow> game_state option" where
  "make_move s m =
     board_set (board s) (start_row m) (start_col m) Empty \<bind> (\<lambda>b1.
     board_set b1 (end_row m) (end_col m) (piece_moved m) \<bind> (\<lambda>b2.
     (if is_pawn_promotion m
      then promoted (piece_moved m) \<bind> board_set b2 (end_row m) (end_col m)
      else Some b2) \<bind> (\<lambda>b3.
     (if is_en_passant m then board_set b3 (start_row m) (end_col m) Empty
      else Some b3) \<bind> (\<lambda>b4.
     (if is_castle m then castle_rook_make b4 m else Some b4) \<bind> (\<lambda>b5.
     let s1 = king_moved
                (s\<lparr>move_log := move_log s @ [m], white_to_move := \<not> white_to_move s\<rparr>)
                (piece_moved m) (end_row m, end_col m);
         cr = update_castle_rights (current_castling_rights s1) m
     in Some (s1\<lparr> board := b5,
                 en_passant_possible :=
                   (if tile_kind (piece_moved m) = Some Pawn \<and> \<bar>end_row m - start_row m\<bar> = 2
                    then Some ((start_row m + end_row m) div 2, end_col m) else None),
                 current_castling_rights := cr,
                 castle_rights_log := castle_rights_log s1 @ [cr],
                 checkmate := False, stalemate := False \<rparr>))))))"

subsection \<open>The pin and check analyser\<close>

definition py_range :: "int \<Rightarrow> int \<Rightarrow> int list" where
  "py_range a b = [a..b - 1]"

definition py_range_down :: "int \<Rightarrow> int \<Rightarrow> int list" where
  "py_range_down a b = rev [b + 1..a]"

definition sliding_directions :: "(int \<times> (int \<times> int)) list" where
  "sliding_directions =
     [(0, (-1, 0)), (1, (0, -1)), (2, (1, 0)), (3, (0, 1)),
      (4, (-1, -1)), (5, (-1, 1)), (6, (1, -1)), (7, (1, 1))]"

definition knight_offsets :: "(int \<times> int) list" where
  "knight_offsets = [(-2, -1), (-2, 1), (-1, -2), (-1, 2), (1, -2), (1, 2), (2, -1), (2, 1)]"

definition applies_check :: "colour \<Rightarrow> int \<Rightarrow> int \<Rightarrow> kind option \<Rightarrow> bool" where
  "applies_check enemy j i piece_type \<longleftrightarrow>
     (0 \<le> j \<and> j \<le> 3 \<and> piece_type = Some Rook) \<or>
     (4 \<le> j \<and> j \<le> 7 \<and> piece_type = Some Bishop) \<or>
     (i = 1 \<and> piece_type = Some Pawn \<and>
        ((enemy = White \<and> 6 \<le> j \<and> j \<le> 7) \<or> (enemy = Black \<and> 4 \<le> j \<and> j \<le> 5))) \<or>
     piece_type = Some Queen \<or> (i = 1 \<and> piece_type = Some King)"

text \<open>
  The inner loop of the analyser along one direction \<open>d\<close> (number \<open>j\<close>) over the
  distances \<open>i\<close>; the accumulator is \<open>(in_check, pins, checks)\<close>, and returning the
  accumulator before the list is used up is the source's \<open>break\<close>.
\<close>

fun scan_ray :: "board \<Rightarrow> colour \<Rightarrow> colour \<Rightarrow> int \<times> int \<Rightarrow> int \<Rightarrow> int \<times> int \<Rightarrow> int list
    \<Rightarrow> pin option \<Rightarrow> bool \<times> pin list \<times> pin list \<Rightarrow> (bool \<times> pin list \<times> pin list) option" where
  "scan_ray b ally enemy start j d [] possible_pin acc = Some acc"
| "scan_ray b ally enemy start j d (i # rest) possible_pin acc =
     (let end_row = fst start + fst d * i; end_col = snd start + snd d * i in
      if on_board b end_row end_col then
        (case board_get b end_row end_col of
           None \<Rightarrow> None
         | Some end_piece \<Rightarrow>
             if tile_colour end_piece = Some ally \<and> tile_kind end_piece \<noteq> Some King then
               (if possible_pin = None
                then scan_ray b ally enemy start j d rest (Some (end_row, end_col, fst d, snd d)) acc
                else Some acc)
             else if tile_colour end_piece = Some enemy then
               (if applies_check enemy j i (tile_kind end_piece) then
                  (case possible_pin of
                     None \<Rightarrow> scan_ray b ally enemy start j d rest possible_pin
                               (True, fst (snd acc), snd (snd acc) @ [(end_row, end_col, fst d, snd d)])
                   | Some p \<Rightarrow> Some (fst acc, fst (snd acc) @ [p], snd (snd acc)))
                else Some acc)
             else scan_ray b ally enemy start j d rest possible_pin acc)
      else scan_ray b ally enemy start j d rest possible_pin acc)"

fun scan_rays :: "board \<Rightarrow> colour \<Rightarrow> colour \<Rightarrow> int \<times> int \<Rightarrow> (int \<times> (int \<times> int)) list
    \<Rightarrow> bool \<times> pin list \<times> pin list \<Rightarrow> (bool \<times> pin list \<times> pin list) option" where
  "scan_rays b ally enemy start [] acc = Some acc"
| "scan_rays b ally enemy start (jd # rest) acc =
     (case scan_ray b ally enemy start (fst jd) (snd jd) (py_range 1 (int (length b))) None acc of
        None \<Rightarrow> None
      | Some acc' \<Rightarrow> scan_rays b ally enemy start rest acc')"

fun scan_knights :: "board \<Rightarrow> colour \<Rightarrow> int \<times> int \<Rightarrow> (int \<times> int) list
    \<Rightarrow> bool \<times> pin list \<times> pin list \<Rightarrow> (bool \<times> pin list \<times> pin list) option" where
  "scan_knights b enemy start [] acc = Some acc"
| "scan_knights b enemy start (mv # rest) acc =
     (let end_row = fst start + fst mv; end_col = snd start + snd mv in
      if on_board b end_row end_col then
        (case board_get b end_row end_col of
           None \<Rightarrow> None
         | Some end_piece \<Rightarrow>
             if tile_colour end_piece = Some enemy \<and> tile_kind end_piece = Some Knight
             then scan_knights b enemy start rest
                    (True, fst (snd acc), snd (snd acc) @ [(end_row, end_col, fst mv, snd mv)])
             else scan_knights b enemy start rest acc)
      else scan_knights b enemy start rest acc)"

definition check_for_pins_and_checks :: "game_state \<Rightarrow> (bool \<times> pin list \<times> pin list) option" where
  "check_for_pins_and_checks s =
     (let ally = (if white_to_move s then White else Black);
          enemy = (if white_to_move s then Black else White);
          start = (if white_to_move s then white_king_location s else black_king_location s)
      in case scan_rays (board s) ally enemy start sliding_directions (False, [], []) of
           None \<Rightarrow> None
         | Some acc \<Rightarrow> scan_knights (board s) enemy start knight_offsets acc)"

subsection \<open>Pseudo-move generators\<close>

text \<open>
  The loop \<open>for i in range(len(self.pins) - 1, -1, -1)\<close> finds the last pin recorded
  for the square; \<open>self.pins.remove\<close> deletes the first entry equal to it.
\<close>

definition find_pin :: "pin list \<Rightarrow> int \<Rightarrow> int \<Rightarrow> pin option" where
  "find_pin ps row col = List.find (\<lambda>p. fst p = row \<and> fst (snd p) = col) (rev ps)"

definition pin_dir :: "pin \<Rightarrow> int \<times> int" where
  "pin_dir p = (fst (snd (snd p)), snd (snd (snd p)))"

definition spend_pin :: "game_state \<Rightarrow> pin option \<Rightarrow> game_state" where
  "spend_pin s pinned = (case pinned of None \<Rightarrow> s | Some p \<Rightarrow> s\<lparr>pins := remove1 p (pins s)\<rparr>)"

definition emit :: "board \<Rightarrow> int \<times> int \<Rightarrow> int \<times> int \<Rightarrow> bool \<Rightarrow> bool \<Rightarrow> moves \<Rightarrow> moves option" where
  "emit b start endp en_passant castle ms =
     map_option (add_move ms) (Move_init start endp b en_passant castle)"

fun ep_inside :: "board \<Rightarrow> int \<Rightarrow> int list \<Rightarrow> bool \<Rightarrow> bool option" where
  "ep_inside b row [] blocking = Some blocking"
| "ep_inside b row (c # cs) blocking =
     (case board_get b row c of
        None \<Rightarrow> None
      | Some t \<Rightarrow> ep_inside b row cs (if t \<noteq> Empty then True else blocking))"

fun ep_outside :: "board \<Rightarrow> colour \<Rightarrow> int \<Rightarrow> int list \<Rightarrow> bool \<times> bool \<Rightarrow> (bool \<times> bool) option" where
  "ep_outside b enemy row [] ab = Some ab"
| "ep_outside b enemy row (c # cs) ab =
     (case board_get b row c of
        None \<Rightarrow> None
      | Some t \<Rightarrow>
          ep_outside b enemy row cs
            (if tile_colour t = Some enemy \<and> (tile_kind t = Some Rook \<or> tile_kind t = Some Queen)
             then (True, snd ab)
             else if t \<noteq> Empty then (fst ab, True) else ab))"

text \<open>
  The en-passant branch of the pawn generator: \<open>(attacking_piece, blocking_piece)\<close>
  after the two scans of the pawn's row.
\<close>

definition ep_exposure :: "board \<Rightarrow> colour \<Rightarrow> int \<times> int \<Rightarrow> int \<Rightarrow> int \<Rightarrow> int \<Rightarrow> (bool \<times> bool) option" where
  "ep_exposure b enemy king row col lr =
     (let range_offset = (if lr > 0 then 1 else 0 :: int) in
      if fst king = row then
        (let inside_range =
               (if snd king < col then py_range (snd king + 1) (col - 1 + range_offset)
                else py_range_down (snd king - 1) (col + range_offset));
             outside_range =
               (if snd king < col then py_range (col + 1 + range_offset) (int (length b))
                else py_range_down (col - 2 + range_offset) (-1))
         in case ep_inside b row inside_range False of
              None \<Rightarrow> None
            | Some blocking \<Rightarrow> ep_outside b enemy row outside_range (False, blocking))
      else Some (False, False))"

definition pawn_forward :: "board \<Rightarrow> int \<Rightarrow> int \<Rightarrow> int \<Rightarrow> int \<Rightarrow> moves \<Rightarrow> moves option" where
  "pawn_forward b row col direction pawn_start_row ms =
     emit b (row, col) (row + direction, col) False False ms \<bind> (\<lambda>ms1.
     if row = pawn_start_row then
       board_get b (row + 2 * direction) col \<bind> (\<lambda>t2.
       if t2 = Empty then emit b (row, col) (row + 2 * direction, col) False False ms1
       else Some ms1)
     else Some ms1)"

definition pawn_side :: "game_state \<Rightarrow> int \<Rightarrow> int \<Rightarrow> int \<Rightarrow> colour \<Rightarrow> int \<times> int \<Rightarrow> bool
    \<Rightarrow> (int \<times> int) option \<Rightarrow> int \<Rightarrow> moves \<Rightarrow> moves option" where
  "pawn_side s row col direction enemy king piece_pinned pin_direction lr ms =
     (if \<not> piece_pinned \<or> pin_direction = Some (direction, lr) then
        (if 0 \<le> col + lr \<and> col + lr < int (length (board s)) then
           map_option (\<lambda>t. tile_colour t = Some enemy) (board_get (board s) (row + direction) (col + lr))
         else Some False) \<bind> (\<lambda>capture.
        if capture then emit (board s) (row, col) (row + direction, col + lr) False False ms
        else if Some (row + direction, col + lr) = en_passant_possible s then
          ep_exposure (board s) enemy king row col lr \<bind> (\<lambda>ab.
          if \<not> fst ab \<or> snd ab
          then emit (board s) (row, col) (row + direction, col + lr) True False ms
          else Some ms)
        else Some ms)
      else Some ms)"

definition get_pawn_moves :: "game_state \<Rightarrow> int \<Rightarrow> int \<Rightarrow> moves \<Rightarrow> (game_state \<times> moves) option" where
  "get_pawn_moves s row col ms =
     (let pinned = find_pin (pins s) row col;
          piece_pinned = (pinned \<noteq> None);
          pin_direction = map_option pin_dir pinned;
          s1 = spend_pin s pinned;
          direction = (if white_to_move s then -1 else 1);
          pawn_start_row = (if white_to_move s then 6 else 1);
          enemy = (if white_to_move s then Black else White);
          king = (if white_to_move s then white_king_location s else black_king_location s)
      in board_get (board s) (row + direction) col \<bind> (\<lambda>ahead.
         (if ahead = Empty \<and> (\<not> piece_pinned \<or> pin_direction = Some (direction, 0))
          then pawn_forward (board s) row col direction pawn_start_row ms
          else Some ms) \<bind> (\<lambda>ms1.
         pawn_side s1 row col direction enemy king piece_pinned pin_direction (-1) ms1 \<bind> (\<lambda>ms2.
         pawn_side s1 row col direction enemy king piece_pinned pin_direction 1 ms2 \<bind> (\<lambda>ms3.
         Some (s1, ms3))))))"

text \<open>One direction of a sliding piece, over the distances \<open>i\<close>.\<close>

fun slide :: "board \<Rightarrow> colour \<Rightarrow> int \<Rightarrow> int \<Rightarrow> bool \<Rightarrow> (int \<times> int) option \<Rightarrow> int \<times> int
    \<Rightarrow> int list \<Rightarrow> moves \<Rightarrow> moves option" where
  "slide b enemy row col piece_pinned pin_direction d [] ms = Some ms"
| "slide b enemy row col piece_pinned pin_direction d (i # rest) ms =
     (let end_row = row + fst d * i; end_col = col + snd d * i in
      if on_board b end_row end_col then
        (if \<not> piece_pinned \<or> pin_direction = Some d \<or> pin_direction = Some (- fst d, - snd d) then
           (case board_get b end_row end_col of
              None \<Rightarrow> None
            | Some end_piece \<Rightarrow>
                if end_piece = Empty then
                  (case emit b (row, col) (end_row, end_col) False False ms of
                     None \<Rightarrow> None
                   | Some ms1 \<Rightarrow> slide b enemy row col piece_pinned pin_direction d rest ms1)
                else if tile_colour end_piece = Some enemy then
                  emit b (row, col) (end_row, end_col) False False ms
                else Some ms)
         else slide b enemy row col piece_pinned pin_direction d rest ms)
      else Some ms)"

fun slides :: "board \<Rightarrow> colour \<Rightarrow> int \<Rightarrow> int \<Rightarrow> bool \<Rightarrow> (int \<times> int) option \<Rightarrow> (int \<times> int) list
    \<Rightarrow> int list \<Rightarrow> moves \<Rightarrow> moves option" where
  "slides b enemy row col piece_pinned pin_direction [] steps ms = Some ms"
| "slides b enemy row col piece_pinned pin_direction (d # ds) steps ms =
     (case slide b enemy row col piece_pinned pin_direction d steps ms of
        None \<Rightarrow> None
      | Some ms1 \<Rightarrow> slides b enemy row col piece_pinned pin_direction ds steps ms1)"

definition get_moves_from_directions ::
    "game_state \<Rightarrow> int \<Rightarrow> int \<Rightarrow> moves \<Rightarrow> (int \<times> int) list \<Rightarrow> (game_state \<times> moves) option" where
  "get_moves_from_directions s row col ms directions =
     (let pinned = find_pin (pins s) row col;
          piece_pinned = (pinned \<noteq> None);
          pin_direction = map_option pin_dir pinned
      in (case pinned of
            None \<Rightarrow> Some s
          | Some p \<Rightarrow>
              map_option (\<lambda>t. if tile_kind t = Some Rook then s\<lparr>pins := remove1 p (pins s)\<rparr> else s)
                (board_get (board s) row col)) \<bind> (\<lambda>s1.
         py_get (board s) 0 \<bind> (\<lambda>line0.
         let enemy = (if white_to_move s then Black else White);
             len = max (int (length (board s))) (int (length line0))
         in map_option (Pair s1)
              (slides (board s) enemy row col piece_pinned pin_direction directions
                 (py_range 1 len) ms))))"

definition get_rook_moves :: "game_state \<Rightarrow> int \<Rightarrow> int \<Rightarrow> moves \<Rightarrow> (game_state \<times> moves) option" where
  "get_rook_moves s row col ms =
     get_moves_from_directions s row col ms [(-1, 0), (1, 0), (0, -1), (0, 1)]"

definition get_bishop_moves :: "game_state \<Rightarrow> int \<Rightarrow> int \<Rightarrow> moves \<Rightarrow> (game_state \<times> moves) option" where
  "get_bishop_moves s row col ms =
     get_moves_from_directions s row col ms [(-1, 1), (-1, -1), (1, -1), (1, 1)]"

definition get_queen_moves :: "game_state \<Rightarrow> int \<Rightarrow> int \<Rightarrow> moves \<Rightarrow> (game_state \<times> moves) option" where
  "get_queen_moves s row col ms =
     get_rook_moves s row col ms \<bind> (\<lambda>(s1, ms1). get_bishop_moves s1 row col ms1)"

fun tiles_loop :: "board \<Rightarrow> colour \<Rightarrow> int \<Rightarrow> int \<Rightarrow> bool \<Rightarrow> (int \<times> int) list \<Rightarrow> moves \<Rightarrow> moves option" where
  "tiles_loop b enemy row col piece_pinned [] ms = Some ms"
| "tiles_loop b enemy row col piece_pinned (t # ts) ms =
     (if on_board b (fst t) (snd t) then
        (if \<not> piece_pinned then
           (case board_get b (fst t) (snd t) of
              None \<Rightarrow> None
            | Some end_piece \<Rightarrow>
                if end_piece = Empty \<or> tile_colour end_piece = Some enemy then
                  (case emit b (row, col) t False False ms of
                     None \<Rightarrow> None
                   | Some ms1 \<Rightarrow> tiles_loop b enemy row col piece_pinned ts ms1)
                else tiles_loop b enemy row col piece_pinned ts ms)
         else tiles_loop b enemy row col piece_pinned ts ms)
      else tiles_loop b enemy row col piece_pinned ts ms)"

definition get_moves_from_tiles ::
    "game_state \<Rightarrow> int \<Rightarrow> int \<Rightarrow> moves \<Rightarrow> (int \<times> int) list \<Rightarrow> (game_state \<times> moves) option" where
  "get_moves_from_tiles s row col ms tiles =
     (let pinned = find_pin (pins s) row col;
          s1 = spend_pin s pinned;
          enemy = (if white_to_move s then Black else White)
      in map_option (Pair s1) (tiles_loop (board s) enemy row col (pinned \<noteq> None) tiles ms))"

definition get_knight_moves :: "game_state \<Rightarrow> int \<Rightarrow> int \<Rightarrow> moves \<Rightarrow> (game_state \<times> moves) option" where
  "get_knight_moves s row col ms =
     get_moves_from_tiles s row col ms
       [(row - 1, col + 2), (row - 2, col + 1), (row - 2, col - 1), (row - 1, col - 2),
        (row + 1, col - 2), (row + 2, col - 1), (row + 2, col + 1), (row + 1, col + 2)]"

definition set_king :: "game_state \<Rightarrow> colour \<Rightarrow> int \<times> int \<Rightarrow> game_state" where
  "set_king s ally loc =
     (if ally = White then s\<lparr>white_king_location := loc\<rparr> else s\<lparr>black_king_location := loc\<rparr>)"

text \<open>
  The loop of the king generator: each candidate square is tried by moving the recorded
  king location there, running the analyser, and putting the location back to
  \<open>(row, col)\<close>.
\<close>

fun king_loop :: "game_state \<Rightarrow> colour \<Rightarrow> int \<Rightarrow> int \<Rightarrow> (int \<times> int) list \<Rightarrow> moves
    \<Rightarrow> (game_state \<times> moves) option" where
  "king_loop s ally row col [] ms = Some (s, ms)"
| "king_loop s ally row col (t # ts) ms =
     (if on_board (board s) (fst t) (snd t) then
        (case board_get (board s) (fst t) (snd t) of
           None \<Rightarrow> None
         | Some end_piece \<Rightarrow>
             if tile_colour end_piece \<noteq> Some ally then
               (case check_for_pins_and_checks (set_king s ally t) of
                  None \<Rightarrow> None
                | Some res \<Rightarrow>
                    (case (if \<not> fst res then emit (board s) (row, col) t False False ms else Some ms) of
                       None \<Rightarrow> None
                     | Some ms1 \<Rightarrow> king_loop (set_king s ally (row, col)) ally row col ts ms1))
             else king_loop s ally row col ts ms)
      else king_loop s ally row col ts ms)"

definition get_king_moves :: "game_state \<Rightarrow> int \<Rightarrow> int \<Rightarrow> moves \<Rightarrow> (game_state \<times> moves) option" where
  "get_king_moves s row col ms =
     king_loop s (if white_to_move s then White else Black) row col
       [(row, col + 1), (row - 1, col + 1), (row - 1, col), (row - 1, col - 1),
        (row, col - 1), (row + 1, col - 1), (row + 1, col), (row + 1, col + 1)] ms"

text \<open>The table \<open>move_functions\<close>, indexed by the kind letter.\<close>

fun move_functions :: "kind \<Rightarrow> game_state \<Rightarrow> int \<Rightarrow> int \<Rightarrow> moves \<Rightarrow> (game_state \<times> moves) option" where
  "move_functions Pawn = get_pawn_moves"
| "move_functions Rook = get_rook_moves"
| "move_functions Knight = get_knight_moves"
| "move_functions Bishop = get_bishop_moves"
| "move_functions Queen = get_queen_moves"
| "move_functions King = get_king_moves"

definition all_squares :: "board \<Rightarrow> (int \<times> int) list" where
  "all_squares b =
     concat (map (\<lambda>row. map (\<lambda>col. (int row, int col)) [0..<length (b ! row)]) [0..<length b])"

fun squares_loop :: "game_state \<Rightarrow> (int \<times> int) list \<Rightarrow> moves \<Rightarrow> (game_state \<times> moves) option" where
  "squares_loop s [] ms = Some (s, ms)"
| "squares_loop s (sq # sqs) ms =
     (case board_get (board s) (fst sq) (snd sq) of
        None \<Rightarrow> None
      | Some t \<Rightarrow>
          (case t of
             Empty \<Rightarrow> squares_loop s sqs ms
           | Piece turn piece \<Rightarrow>
               if (turn = White \<and> white_to_move s) \<or> (turn = Black \<and> \<not> white_to_move s) then
                 (case move_functions piece s (fst sq) (snd sq) ms of
                    None \<Rightarrow> None
                  | Some (s1, ms1) \<Rightarrow> squares_loop s1 sqs ms1)
               else squares_loop s sqs ms))"

definition get_all_possible_moves :: "game_state \<Rightarrow> (game_state \<times> moves) option" where
  "get_all_possible_moves s = squares_loop s (all_squares (board s)) []"

definition tile_under_attack :: "game_state \<Rightarrow> int \<Rightarrow> int \<Rightarrow> (game_state \<times> bool) option" where
  "tile_under_attack s row col =
     get_all_possible_moves (s\<lparr>white_to_move := \<not> white_to_move s\<rparr>) \<bind> (\<lambda>(s1, opponent_moves).
     Some (s1\<lparr>white_to_move := \<not> white_to_move s1\<rparr>,
           \<exists>m \<in> set (dict_values opponent_moves). end_row m = row \<and> end_col m = col))"

subsection \<open>Castling\<close>

definition get_king_side_castle_moves ::
    "game_state \<Rightarrow> int \<Rightarrow> int \<Rightarrow> moves \<Rightarrow> (game_state \<times> moves) option" where
  "get_king_side_castle_moves s row col ms =
     board_get (board s) row (col + 1) \<bind> (\<lambda>t1.
     (if t1 = Empty then map_option (\<lambda>t2. t2 = Empty) (board_get (board s) row (col + 2))
      else Some False) \<bind> (\<lambda>free.
     if free then
       tile_under_attack s row (col + 1) \<bind> (\<lambda>(s1, a1).
       if a1 then Some (s1, ms)
       else tile_under_attack s1 row (col + 2) \<bind> (\<lambda>(s2, a2).
            if a2 then Some (s2, ms)
            else map_option (Pair s2) (emit (board s2) (row, col) (row, col + 2) False True ms)))
     else Some (s, ms)))"

definition get_queen_side_castle_moves ::
    "game_state \<Rightarrow> int \<Rightarrow> int \<Rightarrow> moves \<Rightarrow> (game_state \<times> moves) option" where
  "get_queen_side_castle_moves s row col ms =
     board_get (board s) row (col - 1) \<bind> (\<lambda>t1.
     (if t1 = Empty then
        board_get (board s) row (col - 2) \<bind> (\<lambda>t2.
        if t2 = Empty then map_option (\<lambda>t3. t3 = Empty) (board_get (board s) row (col - 3))
        else Some False)
      else Some False) \<bind> (\<lambda>free.
     if free then
       tile_under_attack s row (col - 1) \<bind> (\<lambda>(s1, a1).
       if a1 then Some (s1, ms)
       else tile_under_attack s1 row (col - 2) \<bind> (\<lambda>(s2, a2).
            if a2 then Some (s2, ms)
            else map_option (Pair s2) (emit (board s2) (row, col) (row, col - 2) False True ms)))
     else Some (s, ms)))"

definition get_castle_moves :: "game_state \<Rightarrow> int \<Rightarrow> int \<Rightarrow> moves \<Rightarrow> (game_state \<times> moves) option" where
  "get_castle_moves s row col ms =
     tile_under_attack s row col \<bind> (\<lambda>(s1, attacked).
     if attacked then Some (s1, ms)
     else
       (if (white_to_move s1 \<and> wks (current_castling_rights s1)) \<or>
           (\<not> white_to_move s1 \<and> bks (current_castling_rights s1))
        then get_king_side_castle_moves s1 row col ms else Some (s1, ms)) \<bind> (\<lambda>(s2, ms2).
       if (white_to_move s2 \<and> wqs (current_castling_rights s2)) \<or>
          (\<not> white_to_move s2 \<and> bqs (current_castling_rights s2))
       then get_queen_side_castle_moves s2 row col ms2 else Some (s2, ms2)))"

subsection \<open>generate_valid_moves\<close>

text \<open>
  The squares on which a check by a piece other than a knight can be blocked: from the
  king along the direction of the check, up to and including the checking piece.
\<close>

fun valid_tiles_loop :: "int \<times> int \<Rightarrow> pin \<Rightarrow> int list \<Rightarrow> (int \<times> int) list \<Rightarrow> (int \<times> int) list" where
  "valid_tiles_loop king chk [] acc = acc"
| "valid_tiles_loop king chk (i # rest) acc =
     (let valid_tile = (fst king + fst (pin_dir chk) * i, snd king + snd (pin_dir chk) * i);
          acc' = acc @ [valid_tile]
      in if fst valid_tile = fst chk \<and> snd valid_tile = fst (snd chk) then acc'
         else valid_tiles_loop king chk rest acc')"

text \<open>
  \<open>for key in list(moves.keys())\<close>: a move of a piece other than the king that does
  not end on a valid tile is deleted; \<open>moves[key]\<close> on a missing key raises KeyError.
\<close>

fun prune_moves :: "int list \<Rightarrow> (int \<times> int) list \<Rightarrow> moves \<Rightarrow> moves option" where
  "prune_moves [] valid_tiles ms = Some ms"
| "prune_moves (key # keys) valid_tiles ms =
     (case map_of ms key of
        None \<Rightarrow> None
      | Some m \<Rightarrow>
          if tile_kind (piece_moved m) \<noteq> Some King \<and> (end_row m, end_col m) \<notin> set valid_tiles
          then prune_moves keys valid_tiles (dict_del ms key)
          else prune_moves keys valid_tiles ms)"

definition single_check_moves :: "game_state \<Rightarrow> int \<times> int \<Rightarrow> (game_state \<times> moves) option" where
  "single_check_moves s king =
     get_all_possible_moves s \<bind> (\<lambda>(s1, ms).
     py_get (checks s1) 0 \<bind> (\<lambda>chk.
     board_get (board s1) (fst chk) (fst (snd chk)) \<bind> (\<lambda>piece_checking.
     let valid_tiles =
           (if tile_kind piece_checking = Some Knight then [(fst chk, fst (snd chk))]
            else valid_tiles_loop king chk (py_range 1 (int (length (board s1)))) [])
     in map_option (Pair s1) (prune_moves (map fst ms) valid_tiles ms))))"

definition set_flags :: "game_state \<Rightarrow> moves \<Rightarrow> game_state" where
  "set_flags s ms =
     (if length ms = 0 then
        (if in_check s then s\<lparr>checkmate := True\<rparr> else s\<lparr>stalemate := True\<rparr>)
      else s\<lparr>checkmate := False, stalemate := False\<rparr>)"

definition generate_valid_moves :: "game_state \<Rightarrow> (moves \<times> game_state) option" where
  "generate_valid_moves s =
     (let temp_en_passant_possible = en_passant_possible s;
          temp_current_castling_rights = current_castling_rights s
      in check_for_pins_and_checks s \<bind> (\<lambda>res.
         let s1 = s\<lparr>in_check := fst res, pins := fst (snd res), checks := snd (snd res)\<rparr>;
             king = (if white_to_move s1 then white_king_location s1 else black_king_location s1)
         in (if in_check s1 then
               (if length (checks s1) = 1 then single_check_moves s1 king
                else get_king_moves s1 (fst king) (snd king) [])
             else get_all_possible_moves s1) \<bind> (\<lambda>(s2, ms).
            (if white_to_move s2
             then get_castle_moves s2 (fst (white_king_location s2)) (snd (white_king_location s2)) ms
             else get_castle_moves s2 (fst (black_king_location s2)) (snd (black_king_location s2)) ms)
              \<bind> (\<lambda>(s3, ms3).
            let s4 = set_flags
                       (s3\<lparr>en_passant_possible := temp_en_passant_possible,
                           current_castling_rights := temp_current_castling_rights\<rparr>) ms3
            in Some (ms3, s4\<lparr>valid_moves := ms3\<rparr>)))))"

subsection \<open>undo_move\<close>

definition castle_rook_undo :: "board \<Rightarrow> move \<Rightarrow> board option" where
  "castle_rook_undo b m =
     (if end_col m - start_col m = 2 then
        board_get b (end_row m) (end_col m - 1) \<bind> (\<lambda>rook.
        board_set b (end_row m) (end_col m + 1) rook \<bind> (\<lambda>b1.
        board_set b1 (end_row m) (end_col m - 1) Empty))
      else
        board_get b (end_row m) (end_col m + 1) \<bind> (\<lambda>rook.
        board_set b (end_row m) (end_col m - 2) rook \<bind> (\<lambda>b1.
        board_set b1 (end_row m) (end_col m + 1) Empty)))"

text \<open>
  The part of \<open>undo_move\<close> before its call of \<open>generate_valid_moves\<close>: the popped
  move is taken back on the board, the side and the king location are put back, and the
  en-passant target is written for an en-passant capture or a double step only.
\<close>

definition undo_board :: "game_state \<Rightarrow> move \<Rightarrow> game_state option" where
  "undo_board s m =
     board_set (board s) (start_row m) (start_col m) (piece_moved m) \<bind> (\<lambda>b1.
     board_set b1 (end_row m) (end_col m) (piece_captured m) \<bind> (\<lambda>b2.
     (if is_en_passant m then
        board_set b2 (end_row m) (end_col m) Empty \<bind> (\<lambda>b3.
        board_set b3 (start_row m) (end_col m) (piece_captured m))
      else Some b2) \<bind> (\<lambda>b4.
     let s1 = king_moved
                (s\<lparr>move_log := butlast (move_log s), white_to_move := \<not> white_to_move s\<rparr>)
                (piece_moved m) (start_row m, start_col m);
         ep1 = (if is_en_passant m then Some (end_row m, end_col m) else en_passant_possible s1);
         ep2 = (if tile_kind (piece_moved m) = Some Pawn \<and> \<bar>end_row m - start_row m\<bar> = 2
                then None else ep1)
     in Some (s1\<lparr>board := b4, en_passant_possible := ep2\<rparr>))))"

definition undo_move :: "game_state \<Rightarrow> game_state option" where
  "undo_move s =
     (if length (move_log s) = 0 then Some (s\<lparr>console := console s @ [''No moves to undo!'']\<rparr>)
      else
        undo_board s (last (move_log s)) \<bind> (\<lambda>s1.
        generate_valid_moves s1 \<bind> (\<lambda>(ms, s2).
        (if castle_rights_log s2 = [] then None else Some (butlast (castle_rights_log s2))) \<bind> (\<lambda>log'.
        (if log' = [] then None else Some (last log')) \<bind> (\<lambda>cr.
        (if is_castle (last (move_log s)) then castle_rook_undo (board s2) (last (move_log s))
         else Some (board s2)) \<bind> (\<lambda>b'.
        Some (s2\<lparr>castle_rights_log := log', current_castling_rights := cr, board := b',
                 checkmate := False, stalemate := False\<rparr>)))))))"

section \<open>Scoring and search (Chess/chess_ai.py, Chess/utils/pieces.py)\<close>

fun MATERIAL_VALUES :: "kind \<Rightarrow> int" where
  "MATERIAL_VALUES Pawn = 100"
| "MATERIAL_VALUES Rook = 500"
| "MATERIAL_VALUES Knight = 320"
| "MATERIAL_VALUES Bishop = 330"
| "MATERIAL_VALUES Queen = 900"
| "MATERIAL_VALUES King = 0"

definition CHECKMATE :: int where
  "CHECKMATE = 100000"

definition STALEMATE :: int where
  "STALEMATE = 0"

definition PAWN_TABLE :: "int list list" where
  "PAWN_TABLE =
    [[0, 0, 0, 0, 0, 0, 0, 0],
     [50, 50, 50, 50, 50, 50, 50, 50],
     [10, 10, 20, 30, 30, 20, 10, 10],
     [5, 5, 10, 25, 25, 10, 5, 5],
     [0, 0, 0, 20, 20, 0, 0, 0],
     [5, -5, -10, 0, 0, -10, -5, 5],
     [5, 10, 10, -20, -20, 10, 10, 5],
     [0, 0, 0, 0, 0, 0, 0, 0]]"

definition KNIGHT_TABLE :: "int list list" where
  "KNIGHT_TABLE =
    [[-50, -40, -30, -30, -30, -30, -40, -50],
     [-40, -20, 0, 0, 0, 0, -20, -40],
     [-30, 0, 10, 15, 15, 10, 0, -30],
     [-30, 5, 15, 20, 20, 15, 5, -30],
     [-30, 0, 15, 20, 20, 15, 0, -30],
     [-30, 5, 10, 15, 15, 10, 5, -30],
     [-40, -20, 0, 5, 5, 0, -20, -40],
     [-50, -40, -30, -30, -30, -30, -40, -50]]"

definition BISHOP_TABLE :: "int list list" where
  "BISHOP_TABLE =
    [[-20, -10, -10, -10, -10, -10, -10, -20],
     [-10, 0, 0, 0, 0, 0, 0, -10],
     [-10, 0, 5, 10, 10, 5, 0, -10],
     [-10, 5, 5, 10, 10, 5, 5, -10],
     [-10, 0, 10, 10, 10, 10, 0, -10],
     [-10, 10, 10, 10, 10, 10, 10, -10],
     [-10, 5, 0, 0, 0, 0, 5, -10],
     [-20, -10, -10, -10, -10, -10, -10, -20]]"

definition ROOK_TABLE :: "int list list" where
  "ROOK_TABLE =
    [[0, 0, 0, 0, 0, 0, 0, 0],
     [5, 10, 10, 10, 10, 10, 10, 5],
     [-5, 0, 0, 0, 0, 0, 0, -5],
     [-5, 0, 0, 0, 0, 0, 0, -5],
     [-5, 0, 0, 0, 0, 0, 0, -5],
     [-5, 0, 0, 0, 0, 0, 0, -5],
     [-5, 0, 0, 0, 0, 0, 0, -5],
     [0, 0, 0, 5, 5, 0, 0, 0]]"

definition QUEEN_TABLE :: "int list list" where
  "QUEEN_TABLE =
    [[-20, -10, -10, -5, -5, -10, -10, -20],
     [-10, 0, 0, 0, 0, 0, 0, -10],
     [-10, 0, 5, 5, 5, 5, 0, -10],
     [-5, 0, 5, 5, 5, 5, 0, -5],
     [0, 0, 5, 5, 5, 5, 0, -5],
     [-10, 5, 5, 5, 5, 5, 0, -10],
     [-10, 0, 5, 0, 0, 0, 0, -10],
     [-20, -10, -10, -5, -5, -10, -10, -20]]"

text \<open>
  The dictionary \<open>PIECE_POSITION_SCORES\<close>: the white tables, reversed row-wise for
  black; it has no entry for a king (or for an empty square), where a lookup raises
  KeyError.
\<close>

fun PIECE_POSITION_SCORES :: "tile \<Rightarrow> int list list option" where
  "PIECE_POSITION_SCORES (Piece White Pawn) = Some PAWN_TABLE"
| "PIECE_POSITION_SCORES (Piece Black Pawn) = Some (rev PAWN_TABLE)"
| "PIECE_POSITION_SCORES (Piece White Knight) = Some KNIGHT_TABLE"
| "PIECE_POSITION_SCORES (Piece Black Knight) = Some (rev KNIGHT_TABLE)"
| "PIECE_POSITION_SCORES (Piece White Bishop) = Some BISHOP_TABLE"
| "PIECE_POSITION_SCORES (Piece Black Bishop) = Some (rev BISHOP_TABLE)"
| "PIECE_POSITION_SCORES (Piece White Rook) = Some ROOK_TABLE"
| "PIECE_POSITION_SCORES (Piece Black Rook) = Some (rev ROOK_TABLE)"
| "PIECE_POSITION_SCORES (Piece White Queen) = Some QUEEN_TABLE"
| "PIECE_POSITION_SCORES (Piece Black Queen) = Some (rev QUEEN_TABLE)"
| "PIECE_POSITION_SCORES (Piece c King) = None"
| "PIECE_POSITION_SCORES Empty = None"

text \<open>\<open>score_material\<close>: the body of the two loops over the rows and their tiles.\<close>

definition material_step :: "colour \<Rightarrow> colour \<Rightarrow> tile \<Rightarrow> int \<Rightarrow> int" where
  "material_step ally enemy t score =
     (case t of
        Empty \<Rightarrow> score
      | Piece c k \<Rightarrow>
          if c = ally then score + MATERIAL_VALUES k
          else if c = enemy then score - MATERIAL_VALUES k
          else score)"

definition score_material :: "game_state \<Rightarrow> int" where
  "score_material s =
     (let ally = (if white_to_move s then White else Black);
          enemy = (if white_to_move s then Black else White)
      in fold (material_step ally enemy) (concat (board s)) 0)"

definition piece_table_step :: "board \<Rightarrow> int \<times> int \<Rightarrow> int \<Rightarrow> int option" where
  "piece_table_step b sq total_score =
     board_get b (fst sq) (snd sq) \<bind> (\<lambda>piece.
     case piece of
       Empty \<Rightarrow> Some total_score
     | Piece c k \<Rightarrow>
         (if k \<noteq> King
          then PIECE_POSITION_SCORES piece \<bind> (\<lambda>table. py_get table (fst sq) \<bind> (\<lambda>line. py_get line (snd sq)))
          else Some 0) \<bind> (\<lambda>piece_score.
         Some (if c = White then total_score + (MATERIAL_VALUES k + piece_score)
               else total_score - (MATERIAL_VALUES k + piece_score))))"

fun piece_table_loop :: "board \<Rightarrow> (int \<times> int) list \<Rightarrow> int \<Rightarrow> int option" where
  "piece_table_loop b [] total_score = Some total_score"
| "piece_table_loop b (sq # sqs) total_score =
     (case piece_table_step b sq total_score of
        None \<Rightarrow> None
      | Some total_score' \<Rightarrow> piece_table_loop b sqs total_score')"

definition score_material_piece_table :: "game_state \<Rightarrow> int option" where
  "score_material_piece_table s =
     piece_table_loop (board s)
       (concat (map (\<lambda>row. map (\<lambda>col. (int row, int col)) [0..<length (board s ! 0)])
                  [0..<length (board s)])) 0"

definition score_board :: "game_state \<Rightarrow> int option" where
  "score_board s =
     (if checkmate s then (if white_to_move s then Some (- CHECKMATE) else Some CHECKMATE)
      else if stalemate s then Some STALEMATE
      else score_material_piece_table s)"

subsection \<open>The depth-limited searches\<close>

text \<open>
  A search works on the shared game state and on the list \<open>best_moves\<close> of its own
  object; both are passed along and returned with the score. \<open>MAX_DEPTH\<close> is the
  first parameter.

  \<open>find_move_minimax\<close> has no return at depth 0, so its recursion is not bounded by
  the depth; the model counts down a fuel and gives \<open>None\<close> when it is used up, as it
  does when the engine raises.
\<close>

definition keep_best :: "bool \<Rightarrow> int \<Rightarrow> int \<Rightarrow> bool \<Rightarrow> move \<Rightarrow> move list \<Rightarrow> int \<times> move list" where
  "keep_best better score best at_root m best_moves =
     (if better then (score, if at_root then [m] else best_moves)
      else if score = best then (best, if at_root then best_moves @ [m] else best_moves)
      else (best, best_moves))"

function find_move_minimax ::
    "nat \<Rightarrow> int \<Rightarrow> game_state \<Rightarrow> move list \<Rightarrow> moves \<Rightarrow> bool \<Rightarrow> int
      \<Rightarrow> (int \<times> game_state \<times> move list) option"
and minimax_max_loop ::
    "nat \<Rightarrow> int \<Rightarrow> game_state \<Rightarrow> move list \<Rightarrow> move list \<Rightarrow> int \<Rightarrow> int
      \<Rightarrow> (int \<times> game_state \<times> move list) option"
and minimax_min_loop ::
    "nat \<Rightarrow> int \<Rightarrow> game_state \<Rightarrow> move list \<Rightarrow> move list \<Rightarrow> int \<Rightarrow> int
      \<Rightarrow> (int \<times> game_state \<times> move list) option"
where
  "find_move_minimax 0 MAX_DEPTH s best_moves valid_moves' white_to_move' depth = None"
| "find_move_minimax (Suc fuel) MAX_DEPTH s best_moves valid_moves' white_to_move' depth =
     (case (if depth \<le> 0 then score_board s else Some 0) of
        None \<Rightarrow> None
      | Some discarded \<Rightarrow>
          if white_to_move'
          then minimax_max_loop fuel MAX_DEPTH s best_moves (dict_values valid_moves') depth (- CHECKMATE)
          else minimax_min_loop fuel MAX_DEPTH s best_moves (dict_values valid_moves') depth CHECKMATE)"
| "minimax_max_loop fuel MAX_DEPTH s best_moves [] depth max_score = Some (max_score, s, best_moves)"
| "minimax_max_loop fuel MAX_DEPTH s best_moves (m # rest) depth max_score =
     (case make_move s m of
        None \<Rightarrow> None
      | Some s1 \<Rightarrow>
     (case generate_valid_moves s1 of
        None \<Rightarrow> None
      | Some (next_moves, s2) \<Rightarrow>
     (case find_move_minimax fuel MAX_DEPTH s2 best_moves next_moves False (depth - 1) of
        None \<Rightarrow> None
      | Some (score, s3, best_moves3) \<Rightarrow>
     (case undo_move s3 of
        None \<Rightarrow> None
      | Some s4 \<Rightarrow>
          minimax_max_loop fuel MAX_DEPTH s4
            (snd (keep_best (score > max_score) score max_score (depth = MAX_DEPTH) m best_moves3))
            rest depth
            (fst (keep_best (score > max_score) score max_score (depth = MAX_DEPTH) m best_moves3))))))"
| "minimax_min_loop fuel MAX_DEPTH s best_moves [] depth min_score = Some (min_score, s, best_moves)"
| "minimax_min_loop fuel MAX_DEPTH s best_moves (m # rest) depth min_score =
     (case make_move s m of
        None \<Rightarrow> None
      | Some s1 \<Rightarrow>
     (case generate_valid_moves s1 of
        None \<Rightarrow> None
      | Some (next_moves, s2) \<Rightarrow>
     (case find_move_minimax fuel MAX_DEPTH s2 best_moves next_moves True (depth - 1) of
        None \<Rightarrow> None
      | Some (score, s3, best_moves3) \<Rightarrow>
     (case undo_move s3 of
        None \<Rightarrow> None
      | Some s4 \<Rightarrow>
          minimax_min_loop fuel MAX_DEPTH s4
            (snd (keep_best (score < min_score) score min_score (depth = MAX_DEPTH) m best_moves3))
            rest depth
            (fst (keep_best (score < min_score) score min_score (depth = MAX_DEPTH) m best_moves3))))))"
  by pat_completeness auto
termination
  by (relation "inv_image (less_than <*lex*> less_than)
        (\<lambda>x. case x of
           Inl (fuel, r) \<Rightarrow> (2 * fuel + 2, 0)
         | Inr (Inl (fuel, md, s, bm, ms, r)) \<Rightarrow> (2 * fuel + 3, length ms)
         | Inr (Inr (fuel, md, s, bm, ms, r)) \<Rightarrow> (2 * fuel + 3, length ms))")
     auto

function find_move_negamax ::
    "int \<Rightarrow> game_state \<Rightarrow> move list \<Rightarrow> moves \<Rightarrow> bool \<Rightarrow> int
      \<Rightarrow> (int \<times> game_state \<times> move list) option"
and negamax_loop ::
    "int \<Rightarrow> game_state \<Rightarrow> move list \<Rightarrow> move list \<Rightarrow> bool \<Rightarrow> int \<Rightarrow> int
      \<Rightarrow> (int \<times> game_state \<times> move list) option"
where
  "find_move_negamax MAX_DEPTH s best_moves valid_moves' white_to_move' depth =
     (if depth \<le> 0 then
        map_option (\<lambda>score. ((if white_to_move' then 1 else -1) * score, s, best_moves)) (score_board s)
      else negamax_loop MAX_DEPTH s best_moves (dict_values valid_moves') white_to_move' depth (- CHECKMATE))"
| "negamax_loop MAX_DEPTH s best_moves [] white_to_move' depth max_score =
     Some (max_score, s, best_moves)"
| "negamax_loop MAX_DEPTH s best_moves (m # rest) white_to_move' depth max_score =
     (case make_move s m of
        None \<Rightarrow> None
      | Some s1 \<Rightarrow>
     (case generate_valid_moves s1 of
        None \<Rightarrow> None
      | Some (next_moves, s2) \<Rightarrow>
     (case find_move_negamax MAX_DEPTH s2 best_moves next_moves (\<not> white_to_move') (depth - 1) of
        None \<Rightarrow> None
      | Some (r, s3, best_moves3) \<Rightarrow>
     (case undo_move s3 of
        None \<Rightarrow> None
      | Some s4 \<Rightarrow>
          negamax_loop MAX_DEPTH s4
            (snd (keep_best (- r > max_score) (- r) max_score (depth = MAX_DEPTH) m best_moves3))
            rest white_to_move' depth
            (fst (keep_best (- r > max_score) (- r) max_score (depth = MAX_DEPTH) m best_moves3))))))"
  by pat_completeness auto
termination
  by (relation "inv_image (less_than <*lex*> less_than)
        (\<lambda>x. case x of
           Inl (md, s, bm, vm, w, depth) \<Rightarrow> (if depth \<le> 0 then 0 else 2 * nat depth + 2, 0)
         | Inr (md, s, bm, ms, w, depth, r) \<Rightarrow> (2 * nat depth + 1, length ms))")
     auto

function find_move_negamax_alpha_beta ::
    "int \<Rightarrow> game_state \<Rightarrow> move list \<Rightarrow> moves \<Rightarrow> int \<Rightarrow> int \<Rightarrow> bool \<Rightarrow> int
      \<Rightarrow> (int \<times> game_state \<times> move list) option"
and alpha_beta_loop ::
    "int \<Rightarrow> game_state \<Rightarrow> move list \<Rightarrow> move list \<Rightarrow> int \<Rightarrow> int \<Rightarrow> bool \<Rightarrow> int \<Rightarrow> int
      \<Rightarrow> (int \<times> game_state \<times> move list) option"
where
  "find_move_negamax_alpha_beta MAX_DEPTH s best_moves valid_moves' alpha beta white_to_move' depth =
     (if depth \<le> 0 then
        map_option (\<lambda>score. ((if white_to_move' then 1 else -1) * score, s, best_moves)) (score_board s)
      else alpha_beta_loop MAX_DEPTH s best_moves (dict_values valid_moves') alpha beta
             white_to_move' depth (- CHECKMATE))"
| "alpha_beta_loop MAX_DEPTH s best_moves [] alpha beta white_to_move' depth max_score =
     Some (max_score, s, best_moves)"
| "alpha_beta_loop MAX_DEPTH s best_moves (m # rest) alpha beta white_to_move' depth max_score =
     (case make_move s m of
        None \<Rightarrow> None
      | Some s1 \<Rightarrow>
     (case generate_valid_moves s1 of
        None \<Rightarrow> None
      | Some (next_moves, s2) \<Rightarrow>
     (case find_move_negamax_alpha_beta MAX_DEPTH s2 best_moves next_moves (- beta) (- alpha)
             (\<not> white_to_move') (depth - 1) of
        None \<Rightarrow> None
      | Some (r, s3, best_moves3) \<Rightarrow>
     (case undo_move s3 of
        None \<Rightarrow> None
      | Some s4 \<Rightarrow>
          (let max_score' = fst (keep_best (- r > max_score) (- r) max_score (depth = MAX_DEPTH) m best_moves3);
               best_moves4 = snd (keep_best (- r > max_score) (- r) max_score (depth = MAX_DEPTH) m best_moves3);
               alpha' = (if max_score' > alpha then max_score' else alpha)
           in if alpha' \<ge> beta then Some (max_score', s4, best_moves4)
              else alpha_beta_loop MAX_DEPTH s4 best_moves4 rest alpha' beta white_to_move' depth max_score')))))"
  by pat_completeness auto
termination
  by (relation "inv_image (less_than <*lex*> less_than)
        (\<lambda>x. case x of
           Inl (md, s, bm, vm, a, b, w, depth) \<Rightarrow> (if depth \<le> 0 then 0 else 2 * nat depth + 2, 0)
         | Inr (md, s, bm, ms, a, b, w, depth, r) \<Rightarrow> (2 * nat depth + 1, length ms))")
     auto

section \<open>Reachable game states\<close>

text \<open>
  The driver starts from the initial position, calls \<open>generate_valid_moves\<close> and
  makes one of the moves it returned. A state is reachable when a play of this kind
  leads to it; the state left by \<open>generate_valid_moves\<close> is reachable as well.
\<close>

inductive reachable :: "game_state \<Rightarrow> bool" where
  start: "reachable GameState_init"
| generated: "reachable s \<Longrightarrow> generate_valid_moves s = Some (ms, s') \<Longrightarrow> reachable s'"
| moved: "reachable s \<Longrightarrow> generate_valid_moves s = Some (ms, s') \<Longrightarrow> m \<in> set (dict_values ms)
          \<Longrightarrow> make_move s' m = Some s'' \<Longrightarrow> reachable s''"

text \<open>
  Playing the valid move with a given id, as the driver does with
  \<open>valid_moves[str(move.move_id)]\<close>, and a sequence of such moves.
\<close>

definition play_move :: "game_state \<Rightarrow> int \<Rightarrow> game_state option" where
  "play_move s k = generate_valid_moves s \<bind> (\<lambda>(ms, s1). map_of ms k \<bind> make_move s1)"

fun play :: "game_state \<Rightarrow> int list \<Rightarrow> game_state option" where
  "play s [] = Some s"
| "play s (k # ks) = play_move s k \<bind> (\<lambda>s1. play s1 ks)"

text \<open>
  The check detector run for the side that has just moved: the side to move is flipped
  back for the analyser.
\<close>

definition king_left_in_check :: "game_state \<Rightarrow> bool option" where
  "king_left_in_check s =
     map_option fst (check_for_pins_and_checks (s\<lparr>white_to_move := \<not> white_to_move s\<rparr>))"

text \<open>
  The material score in the spec's words: the sum of the values of the pieces, white
  counted positive and black negative.
\<close>

definition material_balance :: "board \<Rightarrow> int" where
  "material_balance b =
     (\<Sum>t \<leftarrow> concat b. case t of Empty \<Rightarrow> 0
                           | Piece c k \<Rightarrow> if c = White then MATERIAL_VALUES k else - MATERIAL_VALUES k)"

text \<open>A board of eight rows of eight tiles.\<close>

definition wf_board :: "board \<Rightarrow> bool" where
  "wf_board b \<longleftrightarrow> length b = 8 \<and> (\<forall>line \<in> set b. length line = 8)"

text \<open>
  The piece-square score in the spec's words: every piece counts its material value
  and, unless it is a king, the bonus that the table of its kind gives for its square;
  white pieces count positive and black pieces negative. A black piece reads the white
  table mirrored vertically, that is, at row \<open>7 - row\<close>.
\<close>

fun white_table :: "kind \<Rightarrow> int list list" where
  "white_table Pawn = PAWN_TABLE"
| "white_table Knight = KNIGHT_TABLE"
| "white_table Bishop = BISHOP_TABLE"
| "white_table Rook = ROOK_TABLE"
| "white_table Queen = QUEEN_TABLE"
| "white_table King = []"

definition positional_bonus :: "colour \<Rightarrow> kind \<Rightarrow> nat \<Rightarrow> nat \<Rightarrow> int" where
  "positional_bonus c k row col =
     (if k = King then 0
      else white_table k ! (if c = White then row else 7 - row) ! col)"

definition piece_square_term :: "board \<Rightarrow> nat \<Rightarrow> nat \<Rightarrow> int" where
  "piece_square_term b row col =
     (case b ! row ! col of
        Empty \<Rightarrow> 0
      | Piece c k \<Rightarrow>
          if c = White then MATERIAL_VALUES k + positional_bonus c k row col
          else - (MATERIAL_VALUES k + positional_bonus c k row col))"

definition piece_square_score :: "board \<Rightarrow> int" where
  "piece_square_score b = (\<Sum>row \<leftarrow> [0..<8]. \<Sum>col \<leftarrow> [0..<8]. piece_square_term b row col)"

text \<open>The initial position after the white king's pawn has advanced to e4.\<close>

definition advanced_pawn_position :: game_state where
  "advanced_pawn_position =
     GameState_init
       \<lparr> board :=
           [[bR, bN, bB, bQ, bK, bB, bN, bR],
            [bp, bp, bp, bp, bp, bp, bp, bp],
            [Empty, Empty, Empty, Empty, Empty, Empty, Empty, Empty],
            [Empty, Empty, Empty, Empty, Empty, Empty, Empty, Empty],
            [Empty, Empty, Empty, Empty, wp, Empty, Empty, Empty],
            [Empty, Empty, Empty, Empty, Empty, Empty, Empty, Empty],
            [wp, wp, wp, wp, Empty, wp, wp, wp],
            [wR, wN, wB, wQ, wK, wB, wN, wR]],
         white_to_move := False \<rparr>"

text \<open>A position in which black, to move, is stalemated: Kf7 and Qg6 against Kh8.\<close>

definition stalemate_position :: game_state where
  "stalemate_position =
     GameState_init
       \<lparr> board :=
           [[Empty, Empty, Empty, Empty, Empty, Empty, Empty, bK],
            [Empty, Empty, Empty, Empty, Empty, wK, Empty, Empty],
            [Empty, Empty, Empty, Empty, Empty, Empty, wQ, Empty],
            [Empty, Empty, Empty, Empty, Empty, Empty, Empty, Empty],
            [Empty, Empty, Empty, Empty, Empty, Empty, Empty, Empty],
            [Empty, Empty, Empty, Empty, Empty, Empty, Empty, Empty],
            [Empty, Empty, Empty, Empty, Empty, Empty, Empty, Empty],
            [Empty, Empty, Empty, Empty, Empty, Empty, Empty, Empty]],
         white_to_move := False,
         white_king_location := (1, 5), black_king_location := (0, 7),
         current_castling_rights := \<lparr> wks = False, bks = False, wqs = False, bqs = False \<rparr>,
         castle_rights_log := [\<lparr> wks = False, bks = False, wqs = False, bqs = False \<rparr>] \<rparr>"

section \<open>Properties\<close>

subsection \<open>Helper facts\<close>

lemma play_move_reachable:
  assumes "reachable s" and "play_move s k = Some s'"
  shows "reachable s'"
proof -
  from assms(2) obtain ms s1 m where g: "generate_valid_moves s = Some (ms, s1)"
    and l: "map_of ms k = Some m" and mk: "make_move s1 m = Some s'"
    by (auto simp: play_move_def bind_eq_Some_conv)
  from l have "m \<in> set (dict_values ms)"
    by (force simp: dict_values_def dest: map_of_SomeD)
  then show ?thesis by (rule reachable.moved [OF assms(1) g _ mk])
qed

lemma play_reachable: "reachable s \<Longrightarrow> play s ks = Some s' \<Longrightarrow> reachable s'"
  by (induction ks arbitrary: s) (auto simp: bind_eq_Some_conv dest: play_move_reachable)

lemma play_snoc: "play s (ks @ [k]) = play s ks \<bind> (\<lambda>s1. play_move s1 k)"
  by (induction ks arbitrary: s) (auto split: bind_splits)

subsection \<open>The piece-square sum\<close>

lemma py_get_in: "0 \<le> i \<Longrightarrow> i < int (length xs) \<Longrightarrow> py_get xs i = Some (xs ! nat i)"
  by (simp add: py_get_def py_index_def)

lemma table_get:
  assumes "length T = 8" and "\<forall>line \<in> set T. length line = 8"
    and "0 \<le> r" "r < 8" "0 \<le> c" "c < 8"
  shows "py_get T r \<bind> (\<lambda>line. py_get line c) = Some (T ! nat r ! nat c)"
proof -
  from assms have "T ! nat r \<in> set T" by simp
  with assms have l: "length (T ! nat r) = 8" by blast
  from assms have "py_get T r = Some (T ! nat r)" by (simp add: py_get_in)
  moreover from l assms have "py_get (T ! nat r) c = Some (T ! nat r ! nat c)"
    by (simp add: py_get_in)
  ultimately show ?thesis by simp
qed

lemma rev_table_get:
  assumes "length T = 8" and "\<forall>line \<in> set T. length line = 8"
    and "0 \<le> r" "r < 8" "0 \<le> c" "c < 8"
  shows "py_get (rev T) r \<bind> (\<lambda>line. py_get line c) = Some (T ! (7 - nat r) ! nat c)"
proof -
  from assms have "py_get (rev T) r \<bind> (\<lambda>line. py_get line c) = Some (rev T ! nat r ! nat c)"
    by (intro table_get) simp_all
  moreover from assms have "rev T ! nat r = T ! (7 - nat r)" by (simp add: rev_nth)
  ultimately show ?thesis by simp
qed

lemma white_table_wf:
  "k \<noteq> King \<Longrightarrow> length (white_table k) = 8 \<and> (\<forall>line \<in> set (white_table k). length line = 8)"
  by (cases k)
    (simp_all add: PAWN_TABLE_def KNIGHT_TABLE_def BISHOP_TABLE_def ROOK_TABLE_def QUEEN_TABLE_def)

lemma PIECE_POSITION_SCORES_white_table:
  "k \<noteq> King \<Longrightarrow> PIECE_POSITION_SCORES (Piece c k) =
     Some (if c = White then white_table k else rev (white_table k))"
  by (cases k; cases c) simp_all

lemma position_score_get:
  assumes "k \<noteq> King" and "0 \<le> r" "r < 8" "0 \<le> col" "col < 8"
  shows "PIECE_POSITION_SCORES (Piece c k) \<bind> (\<lambda>table. py_get table r \<bind> (\<lambda>line. py_get line col))
         = Some (positional_bonus c k (nat r) (nat col))"
proof -
  note w = white_table_wf [OF assms(1)]
  show ?thesis
  proof (cases "c = White")
    case True
    with table_get [OF conjunct1 [OF w] conjunct2 [OF w] assms(2-5)] assms(1) show ?thesis
      by (simp add: PIECE_POSITION_SCORES_white_table positional_bonus_def)
  next
    case False
    with rev_table_get [OF conjunct1 [OF w] conjunct2 [OF w] assms(2-5)] assms(1) show ?thesis
      by (simp add: PIECE_POSITION_SCORES_white_table positional_bonus_def)
  qed
qed

lemma piece_table_step_term:
  assumes "wf_board b" and "row < 8" and "col < 8"
  shows "piece_table_step b (int row, int col) total_score =
         Some (total_score + piece_square_term b row col)"
proof -
  from assms have g: "board_get b (int row) (int col) = Some (b ! row ! col)"
    using table_get [of b "int row" "int col"] by (simp add: wf_board_def board_get_def)
  show ?thesis
  proof (cases "b ! row ! col")
    case Empty
    with g show ?thesis by (simp add: piece_table_step_def piece_square_term_def)
  next
    case (Piece c k)
    show ?thesis
    proof (cases "k = King")
      case True
      with g Piece show ?thesis
        by (simp add: piece_table_step_def piece_square_term_def positional_bonus_def)
    next
      case False
      from position_score_get [OF False, of "int row" "int col" c] assms
      have "PIECE_POSITION_SCORES (Piece c k) \<bind>
              (\<lambda>table. py_get table (int row) \<bind> (\<lambda>line. py_get line (int col)))
            = Some (positional_bonus c k row col)" by simp
      with g Piece False show ?thesis
        by (simp add: piece_table_step_def piece_square_term_def)
    qed
  qed
qed

lemma piece_table_loop_sum:
  assumes "wf_board b"
  shows "\<forall>sq \<in> set sqs. fst sq < 8 \<and> snd sq < 8 \<Longrightarrow>
         piece_table_loop b (map (\<lambda>sq. (int (fst sq), int (snd sq))) sqs) total_score =
         Some (total_score + (\<Sum>sq \<leftarrow> sqs. piece_square_term b (fst sq) (snd sq)))"
proof (induction sqs arbitrary: total_score)
  case Nil
  show ?case by simp
next
  case (Cons sq sqs)
  from Cons.prems have "fst sq < 8" "snd sq < 8" by simp_all
  from piece_table_step_term [OF assms this]
  have "piece_table_step b (int (fst sq), int (snd sq)) total_score =
        Some (total_score + piece_square_term b (fst sq) (snd sq))" .
  moreover from Cons.prems have "\<forall>sq \<in> set sqs. fst sq < 8 \<and> snd sq < 8" by simp
  note Cons.IH [OF this]
  ultimately show ?case by (simp add: add.assoc)
qed

lemma sum_list_concat_map:
  "sum_list (map f (concat xss)) = (\<Sum>xs \<leftarrow> xss. sum_list (map f xs))"
  for f :: "'a \<Rightarrow> int"
  by (induction xss) simp_all

lemma score_material_piece_table_sum:
  assumes "wf_board (board s)"
  shows "score_material_piece_table s = Some (piece_square_score (board s))"
proof -
  let ?sqs = "concat (map (\<lambda>row. map (\<lambda>col. (row, col)) [0..<8]) [0..<8])"
  from assms have l: "length (board s) = 8" "length (board s ! 0) = 8"
    by (simp_all add: wf_board_def)
  have m: "concat (map (\<lambda>row. map (\<lambda>col. (int row, int col)) [0..<8]) [0..<8]) =
           map (\<lambda>sq. (int (fst sq), int (snd sq))) ?sqs"
    by (simp add: map_concat comp_def)
  have i: "\<forall>sq \<in> set ?sqs. fst sq < 8 \<and> snd sq < 8" by auto
  have "(\<Sum>sq \<leftarrow> ?sqs. piece_square_term (board s) (fst sq) (snd sq)) = piece_square_score (board s)"
    unfolding piece_square_score_def sum_list_concat_map by (simp add: comp_def del: upt_Suc)
  with piece_table_loop_sum [OF assms i, of 0] show ?thesis
    unfolding score_material_piece_table_def l m by simp
qed

subsection \<open>Move construction\<close>

text \<open>
  C10. A move constructed with \<open>is_en_passant\<close> set records as captured piece the
  enemy pawn (\<open>wp\<close> when the moving piece is \<open>bp\<close>, \<open>bp\<close> otherwise), whatever the
  end square holds; without the flag the captured piece is read from the end square.
\<close>

theorem Move_init_piece_captured:
  assumes "Move_init start endp b en_passant castle = Some m"
  shows "(en_passant \<longrightarrow> piece_captured m = (if piece_moved m = bp then wp else bp)) \<and>
         (\<not> en_passant \<longrightarrow> board_get b (fst endp) (snd endp) = Some (piece_captured m)) \<and>
         board_get b (fst start) (snd start) = Some (piece_moved m) \<and>
         is_en_passant m = en_passant"
  using assms by (auto simp: Move_init_def bind_eq_Some_conv)

theorem Move_init_piece_captured_witness:
  "Move_init (6, 4) (5, 3) initial_board True False =
     Some \<lparr> start_row = 6, start_col = 4, end_row = 5, end_col = 3, piece_moved = wp,
            piece_captured = bp, is_pawn_promotion = False, is_en_passant = True,
            is_castle = False, move_id = 6453 \<rparr> \<and>
   board_get initial_board 5 3 = Some Empty"
proof -
  have h: "Move_init (6, 4) (5, 3) initial_board True False =
     Some \<lparr> start_row = 6, start_col = 4, end_row = 5, end_col = 3, piece_moved = wp,
            piece_captured = bp, is_pawn_promotion = False, is_en_passant = True,
            is_castle = False, move_id = 6453 \<rparr>"
    by code_simp
  have e: "board_get initial_board 5 3 = Some Empty"
    by code_simp
  from Move_init_piece_captured [OF h] h e show ?thesis by simp
qed

subsection \<open>Undo with an empty history\<close>

text \<open>
  C9. When the move log is empty, \<open>undo_move\<close> prints its message and changes nothing
  else: the board, the side to move, the king locations, the en-passant target, the
  castling rights and both logs are as before.
\<close>

theorem undo_move_empty_log:
  assumes "move_log s = []"
  shows "\<exists>s'. undo_move s = Some s' \<and> s' = s\<lparr>console := console s @ [''No moves to undo!'']\<rparr> \<and>
           board s' = board s \<and> white_to_move s' = white_to_move s \<and>
           white_king_location s' = white_king_location s \<and>
           black_king_location s' = black_king_location s \<and>
           en_passant_possible s' = en_passant_possible s \<and>
           current_castling_rights s' = current_castling_rights s \<and>
           move_log s' = move_log s \<and> castle_rights_log s' = castle_rights_log s"
  using assms by (simp add: undo_move_def)

theorem undo_move_empty_log_witness:
  "move_log GameState_init = [] \<and>
   undo_move GameState_init = Some (GameState_init\<lparr>console := [''No moves to undo!'']\<rparr>)"
proof -
  have h: "move_log GameState_init = []" by (simp add: GameState_init_def)
  from undo_move_empty_log [OF h] h show ?thesis by (simp add: GameState_init_def)
qed

subsection \<open>Scoring\<close>

text \<open>
  C6. \<open>score_board\<close> is \<open>-CHECKMATE\<close> when checkmate is set and white is to move,
  \<open>CHECKMATE\<close> when checkmate is set and black is to move, \<open>STALEMATE\<close> when only
  stalemate is set, and the piece-square score otherwise; \<open>CHECKMATE\<close> is 100000 and
  \<open>STALEMATE\<close> is 0. On a board of eight rows of eight tiles the piece-square score
  \<open>score_material_piece_table\<close> is the sum over the squares of the material value and
  the positional bonus of the piece standing there, white positive and black negative.
\<close>

theorem score_board_cases:
  "score_board s =
     (if checkmate s \<and> white_to_move s then Some (- 100000)
      else if checkmate s then Some 100000
      else if stalemate s then Some 0
      else score_material_piece_table s) \<and>
   (wf_board (board s) \<longrightarrow> score_material_piece_table s = Some (piece_square_score (board s))) \<and>
   CHECKMATE = 100000 \<and> STALEMATE = 0"
  using score_material_piece_table_sum [of s]
  by (simp add: score_board_def CHECKMATE_def STALEMATE_def)

theorem score_board_cases_witness:
  "wf_board (board advanced_pawn_position) \<and>
   score_board advanced_pawn_position = Some 40 \<and>
   piece_square_score (board advanced_pawn_position) = 40"
proof -
  have w: "wf_board (board advanced_pawn_position)"
    by (simp add: wf_board_def advanced_pawn_position_def)
  have f: "\<not> checkmate advanced_pawn_position" "\<not> stalemate advanced_pawn_position"
    by (simp_all add: advanced_pawn_position_def GameState_init_def)
  have v: "piece_square_score (board advanced_pawn_position) = 40" by code_simp
  from score_board_cases [of advanced_pawn_position] w f v show ?thesis by simp
qed

text \<open>
  C5 (the code differs). \<open>score_material\<close> counts the side to move positive: after
  1. e4 d5 2. exd5 white is a pawn up and black is to move; the function returns -100,
  where the balance with white positive is 100.
\<close>

theorem score_material_black_to_move:
  "\<exists>s. play GameState_init [6444, 1333, 4433] = Some s \<and> \<not> white_to_move s \<and>
       score_material s = - 100 \<and> material_balance (board s) = 100"
proof -
  have "map_option (\<lambda>s. (white_to_move s, score_material s, material_balance (board s)))
          (play GameState_init [6444, 1333, 4433]) = Some (False, - 100, 100)"
    by code_simp
  then show ?thesis by auto
qed

text \<open>
  C4 (the code differs). At depth 0 \<open>find_move_minimax\<close> evaluates the board and
  drops the value: it goes on to the loop over the valid moves. In the stalemated
  position its result is \<open>CHECKMATE\<close>, the initial value of the minimising side,
  where the evaluation of the board is 0.
\<close>

theorem minimax_depth_zero_stalemate:
  "\<exists>s. generate_valid_moves stalemate_position = Some ([], s) \<and> stalemate s \<and> \<not> checkmate s \<and>
       score_board s = Some 0 \<and>
       find_move_minimax (Suc fuel) MAX_DEPTH s [] [] False 0 = Some (100000, s, [])"
proof -
  have "generate_valid_moves stalemate_position \<bind> (\<lambda>(ms, s).
          Some (ms, stalemate s, checkmate s, score_board s)) = Some ([], True, False, Some 0)"
    by code_simp
  then obtain s where g: "generate_valid_moves stalemate_position = Some ([], s)"
    and f: "stalemate s" "\<not> checkmate s" "score_board s = Some 0"
    by (auto simp: bind_eq_Some_conv)
  have "find_move_minimax (Suc fuel) MAX_DEPTH s [] [] False 0 = Some (100000, s, [])"
    using f(3) by (simp add: dict_values_def CHECKMATE_def)
  with g f show ?thesis by blast
qed

subsection \<open>Make and undo\<close>

text \<open>
  C1 (the code differs). After 1. e4 a6 2. e5 d5 the en-passant target is d6 and the
  capture e5xd6 (id 3423) is a valid move. Making the valid move Ng1-f3 (id 7655) and
  undoing it leaves the target empty, and the capture is no longer generated.
\<close>

theorem undo_loses_en_passant:
  "\<exists>P ms P' m X U ms' U'.
      reachable P \<and> generate_valid_moves P = Some (ms, P') \<and> map_of ms 7655 = Some m \<and>
      make_move P' m = Some X \<and> undo_move X = Some U \<and>
      en_passant_possible P = Some (2, 3) \<and> en_passant_possible U = None \<and>
      map_option is_en_passant (map_of ms 3423) = Some True \<and>
      generate_valid_moves U = Some (ms', U') \<and> map_of ms' 3423 = None"
proof -
  have "play GameState_init [6444, 1020, 4434, 1333] \<bind> (\<lambda>P.
        generate_valid_moves P \<bind> (\<lambda>(ms, P').
        map_of ms 7655 \<bind> (\<lambda>m.
        make_move P' m \<bind> (\<lambda>X.
        undo_move X \<bind> (\<lambda>U.
        generate_valid_moves U \<bind> (\<lambda>(ms', U').
        Some (en_passant_possible P, en_passant_possible U,
              map_option is_en_passant (map_of ms 3423), map_of ms' 3423)))))))
        = Some (Some (2, 3), None, Some True, None)"
    by code_simp
  then obtain P ms P' m X U ms' U' where
    "play GameState_init [6444, 1020, 4434, 1333] = Some P"
    "generate_valid_moves P = Some (ms, P')" "map_of ms 7655 = Some m"
    "make_move P' m = Some X" "undo_move X = Some U" "generate_valid_moves U = Some (ms', U')"
    "en_passant_possible P = Some (2, 3)" "en_passant_possible U = None"
    "map_option is_en_passant (map_of ms 3423) = Some True" "map_of ms' 3423 = None"
    by (auto simp: bind_eq_Some_conv simp del: play.simps)
  moreover from this(1) have "reachable P" using play_reachable [OF reachable.start] by blast
  ultimately show ?thesis by blast
qed

subsection \<open>Legality of the generated moves\<close>

text \<open>
  C2 (the code differs). After 1. Nf3 g5 2. e3 g4 3. Be2 g3 4. Nd4 gxh2 the generator
  offers white the king-side castle (id 7476), although the black pawn on h2 attacks
  g1: \<open>tile_under_attack\<close> sees a pawn's capture only on an occupied square. After the
  castle the check detector, run for white, reports check.
\<close>

theorem castle_into_pawn_attack:
  "\<exists>s s'. reachable s \<and> play_move s 7476 = Some s' \<and> reachable s' \<and>
      board_get (board s') 7 6 = Some wK \<and> board_get (board s') 6 7 = Some bp \<and>
      \<not> white_to_move s' \<and> king_left_in_check s' = Some True"
proof -
  have "play GameState_init ([7655, 1636, 6454, 3646, 7564, 4656, 5543, 5667] @ [7476]) \<bind>
          (\<lambda>s'. Some (board_get (board s') 7 6, board_get (board s') 6 7, white_to_move s',
                      king_left_in_check s'))
        = Some (Some wK, Some bp, False, Some True)"
    by code_simp
  then obtain s' where p: "play GameState_init ([7655, 1636, 6454, 3646, 7564, 4656, 5543, 5667] @ [7476]) = Some s'"
    and f: "board_get (board s') 7 6 = Some wK" "board_get (board s') 6 7 = Some bp"
      "\<not> white_to_move s'" "king_left_in_check s' = Some True"
    by (auto simp: bind_eq_Some_conv simp del: play.simps append.simps)
  from p obtain s where q: "play GameState_init [7655, 1636, 6454, 3646, 7564, 4656, 5543, 5667] = Some s"
    and r: "play_move s 7476 = Some s'"
    unfolding play_snoc by (auto simp: bind_eq_Some_conv simp del: play.simps)
  have "reachable s" using play_reachable [OF reachable.start q] .
  moreover have "reachable s'" using play_move_reachable [OF \<open>reachable s\<close> r] .
  ultimately show ?thesis using r f by blast
qed

end
